theory Spec2Isabelle
  imports Main
begin

section \<open>The calculator session of Calculator.jsx\<close>

text \<open>
  The component \<open>Calculator\<close> keeps three pieces of React state: the object
  \<open>expressionAndResult\<close> with the fields \<open>expression\<close>, \<open>result\<close> and
  \<open>needsReset\<close>, the flag \<open>resultIsError\<close>, and \<open>previousNonErrorResult\<close>.
  Every handler replaces them with setter calls; a handler is re-created whenever
  the state it reads changes, so each event sees the state the previous one left.
  The model is one record and one function per handler, from state to state.

  A JavaScript string is a \<open>string\<close> here: one \<open>char\<close> per code unit. Every
  code unit the handlers test or produce is below 256: ASCII, the multiplication
  sign U+00D7 and the division sign U+00F7.
\<close>

subsection \<open>Values and state\<close>

text \<open>
  An element of the \<open>expression\<close> array is a string, or \<open>undefined\<close> when
  \<open>handleOperationInput\<close> reads \<open>result[1]\<close> past the end of \<open>result\<close>.
\<close>

datatype token = Str string | Undefined

record session =
  expression :: "token list"
  result :: "string list"
  needsReset :: bool
  resultIsError :: bool
  previousNonErrorResult :: "string option"

text \<open>The three \<open>useState\<close> initial values; \<open>null\<close> is \<open>None\<close>.\<close>

definition initialSession :: session where
  "initialSession =
     \<lparr>expression = [], result = [], needsReset = False,
      resultIsError = False, previousNonErrorResult = None\<rparr>"

text \<open>
  \<open>math.evaluate(s).toString()\<close> inside the \<open>try\<close> block: math.js is a library
  outside the repository, so it is a parameter. \<open>Inr r\<close> is the string the call
  returns, \<open>Inl m\<close> is a raised exception whose \<open>message\<close> renders as \<open>m\<close>.
\<close>

type_synonym evaluator = "string \<Rightarrow> string + string"

subsection \<open>Strings\<close>

definition timesGlyph :: string where
  "timesGlyph = [CHR 0xD7]"

definition divideGlyph :: string where
  "divideGlyph = [CHR 0xF7]"

text \<open>\<open>Array.prototype.join\<close> renders \<open>undefined\<close> as the empty string.\<close>

fun tokenText :: "token \<Rightarrow> string" where
  "tokenText (Str s) = s"
| "tokenText Undefined = []"

text \<open>\<open>parseExpression\<close>: \<open>expression.join("")\<close>.\<close>

definition parseExpression :: "token list \<Rightarrow> string" where
  "parseExpression e = concat (map tokenText e)"

text \<open>
  \<open>s.replaceAll(/c/g, r)\<close> for a pattern of one code unit \<open>c\<close>: a scan from
  the left that writes \<open>r\<close> for each \<open>c\<close>.
\<close>

fun replaceAll :: "char \<Rightarrow> string \<Rightarrow> string \<Rightarrow> string" where
  "replaceAll c r [] = []"
| "replaceAll c r (x # xs) =
     (if x = c then r @ replaceAll c r xs else x # replaceAll c r xs)"

text \<open>The variable \<open>expressionParsed\<close> of \<open>computeExpression\<close> after its three assignments.\<close>

definition expressionParsed :: "token list \<Rightarrow> string" where
  "expressionParsed e =
     replaceAll (CHR 0xF7) ''/'' (replaceAll (CHR 0xD7) ''*'' (parseExpression e))"

text \<open>\<open>match(/[A-Za-z]+/g)\<close> is truthy exactly when some code unit is an ASCII letter.\<close>

definition isAsciiLetter :: "char \<Rightarrow> bool" where
  "isAsciiLetter c =
     ((of_char (CHR ''A'') \<le> (of_char c :: nat) \<and> (of_char c :: nat) \<le> of_char (CHR ''Z'')) \<or>
      (of_char (CHR ''a'') \<le> (of_char c :: nat) \<and> (of_char c :: nat) \<le> of_char (CHR ''z'')))"

text \<open>The constant \<open>resultDisplay\<close>: a result with a letter is wrapped as KaTeX text.\<close>

definition resultDisplay :: "string \<Rightarrow> string" where
  "resultDisplay r =
     (if list_ex isAsciiLetter r then CHR 0x5C # ''text{'' @ r @ ''}'' else r)"

subsection \<open>The handlers\<close>

definition resetExpression :: "token list \<Rightarrow> session \<Rightarrow> session" where
  "resetExpression newExpression s =
     s\<lparr>expression := newExpression, result := [], needsReset := False,
       resultIsError := False\<rparr>"

definition handleNumberInput :: "string \<Rightarrow> session \<Rightarrow> session" where
  "handleNumberInput num s =
     (if needsReset s then resetExpression [Str num] s
      else s\<lparr>expression := expression s @ [Str num], result := [], needsReset := False\<rparr>)"

text \<open>\<open>result[1]\<close>: the element at index 1, \<open>undefined\<close> past the end.\<close>

definition resultAt1 :: "string list \<Rightarrow> token" where
  "resultAt1 r = (if 1 < length r then Str (r ! 1) else Undefined)"

text \<open>The first element \<open>handleOperationInput\<close> hands to \<open>resetExpression\<close>.\<close>

definition resumeValue :: "session \<Rightarrow> token" where
  "resumeValue s =
     (case previousNonErrorResult s of Some p \<Rightarrow> Str p | None \<Rightarrow> resultAt1 (result s))"

definition handleOperationInput :: "string \<Rightarrow> session \<Rightarrow> session" where
  "handleOperationInput op s =
     (if needsReset s then resetExpression [resumeValue s, Str op] s
      else s\<lparr>expression := expression s @ [Str op], result := [], needsReset := False\<rparr>)"

definition clearInput :: "session \<Rightarrow> session" where
  "clearInput s =
     s\<lparr>expression := [], result := [], needsReset := False, resultIsError := False\<rparr>"

text \<open>\<open>slice(0, -1)\<close> drops the last element and leaves the empty array empty.\<close>

definition backspace :: "session \<Rightarrow> session" where
  "backspace s = s\<lparr>expression := butlast (expression s), result := [], needsReset := False\<rparr>"

definition computeExpression :: "evaluator \<Rightarrow> session \<Rightarrow> session" where
  "computeExpression ev s =
     (case ev (expressionParsed (expression s)) of
        Inl message \<Rightarrow>
          s\<lparr>resultIsError := True,
            expression := expression s, result := [''Error: '' @ message], needsReset := True\<rparr>
      | Inr resultOfComputation \<Rightarrow>
          s\<lparr>expression := expression s,
            result := [''='', resultDisplay resultOfComputation], needsReset := True,
            previousNonErrorResult := Some resultOfComputation\<rparr>)"

subsection \<open>The display\<close>

text \<open>The \<open>expression\<close> and \<open>result\<close> props handed to \<open>DisplayArea\<close>.\<close>

definition displayExpression :: "session \<Rightarrow> string" where
  "displayExpression s =
     (if 0 < length (expression s) then parseExpression (expression s) else [])"

definition displayResult :: "session \<Rightarrow> string" where
  "displayResult s =
     (if 0 < length (result s) then parseExpression (map Str (result s)) else [])"

subsection \<open>The two input surfaces\<close>

datatype action =
  HandleNumberInput string
| HandleOperationInput string
| Backspace
| ClearInput
| ComputeExpression

fun step :: "evaluator \<Rightarrow> session \<Rightarrow> action \<Rightarrow> session" where
  "step ev s (HandleNumberInput num) = handleNumberInput num s"
| "step ev s (HandleOperationInput op) = handleOperationInput op s"
| "step ev s Backspace = backspace s"
| "step ev s ClearInput = clearInput s"
| "step ev s ComputeExpression = computeExpression ev s"

text \<open>A session: the events in the order they arrive.\<close>

fun run :: "evaluator \<Rightarrow> session \<Rightarrow> action list \<Rightarrow> session" where
  "run ev s [] = s"
| "run ev s (a # as) = run ev (step ev s a) as"

text \<open>
  The keypad, in the order of the JSX: an \<open>InputButton\<close> calls its handler with
  its own \<open>char\<close>, an \<open>ActionButton\<close> calls its handler with no argument.
\<close>

datatype inputHandler = NumberHandler | OperationHandler

datatype control = InputButton string inputHandler | ActionButton action

fun onClick :: "control \<Rightarrow> action" where
  "onClick (InputButton char NumberHandler) = HandleNumberInput char"
| "onClick (InputButton char OperationHandler) = HandleOperationInput char"
| "onClick (ActionButton a) = a"

definition keypad :: "control list" where
  "keypad =
     [InputButton ''('' OperationHandler, InputButton '')'' OperationHandler,
      ActionButton Backspace, ActionButton ClearInput,
      InputButton ''1'' NumberHandler, InputButton ''2'' NumberHandler,
      InputButton ''3'' NumberHandler, InputButton ''+'' OperationHandler,
      InputButton ''4'' NumberHandler, InputButton ''5'' NumberHandler,
      InputButton ''6'' NumberHandler, InputButton ''-'' OperationHandler,
      InputButton ''7'' NumberHandler, InputButton ''8'' NumberHandler,
      InputButton ''9'' NumberHandler, InputButton timesGlyph OperationHandler,
      InputButton ''0'' NumberHandler, InputButton ''.'' NumberHandler,
      ActionButton ComputeExpression, InputButton divideGlyph OperationHandler]"

text \<open>
  \<open>key.match(/[...]/)\<close> with a character class is truthy exactly when some code
  unit of \<open>key\<close> is in the class; \<open>\d\<close> is an ASCII digit.
\<close>

definition isDigit :: "char \<Rightarrow> bool" where
  "isDigit c =
     (of_char (CHR ''0'') \<le> (of_char c :: nat) \<and> (of_char c :: nat) \<le> of_char (CHR ''9''))"

definition keyDownHandler :: "bool \<Rightarrow> string \<Rightarrow> action option" where
  "keyDownHandler shiftKey key =
     (if shiftKey then
        (if list_ex (\<lambda>c. c \<in> set ''/()'') key then Some (HandleNumberInput key)
         else if list_ex (\<lambda>c. c \<in> set ''/*+'') key then
           (if key = ''*'' then Some (HandleOperationInput timesGlyph)
            else Some (HandleOperationInput key))
         else None)
      else if list_ex (\<lambda>c. isDigit c \<or> c \<in> set ''./-'') key then
        (if key = ''/'' then Some (HandleOperationInput divideGlyph)
         else if key = ''-'' then Some (HandleOperationInput key)
         else Some (HandleNumberInput key))
      else if key = ''Backspace'' \<or> key = ''Delete'' then Some Backspace
      else if key = ''='' then Some ComputeExpression
      else None)"

text \<open>
  A stand-in for math.js on the two strings the examples below evaluate:
  \<open>2+2\<close> computes \<open>4\<close>, and \<open>2+\<close> raises the syntax error of an expression
  that ends after an operator. No example evaluates another string. The general
  theorems hold for every evaluator.
\<close>

definition sampleEvaluator :: evaluator where
  "sampleEvaluator x =
     (if x = ''2+2'' then Inr ''4''
      else if x = ''2+'' then Inl ''Unexpected end of expression (char 3)''
      else Inl ''not tabulated'')"

text \<open>Example sessions on the keypad: the keys \<open>2 +\<close> and \<open>2 + 2\<close>.\<close>

definition keysTwoPlus :: "action list" where
  "keysTwoPlus = [HandleNumberInput ''2'', HandleOperationInput ''+'']"

definition keysTwoPlusTwo :: "action list" where
  "keysTwoPlusTwo = [HandleNumberInput ''2'', HandleOperationInput ''+'', HandleNumberInput ''2'']"

definition afterFour :: session where
  "afterFour = run sampleEvaluator initialSession (keysTwoPlusTwo @ [ComputeExpression])"

subsection \<open>Vocabulary of the specification\<close>

text \<open>
  The translation the specification asks for, one character at a time: the
  multiplication sign becomes \<open>*\<close>, the division sign becomes \<open>/\<close>, every other
  character stays. It is compared with \<open>expressionParsed\<close> below.
\<close>

definition glyphToOperator :: "char \<Rightarrow> char" where
  "glyphToOperator c =
     (if c = CHR 0xD7 then CHR ''*'' else if c = CHR 0xF7 then CHR ''/'' else c)"

text \<open>The digit and operator appends, and the string each one enters.\<close>

fun isAppend :: "action \<Rightarrow> bool" where
  "isAppend (HandleNumberInput num) = True"
| "isAppend (HandleOperationInput op) = True"
| "isAppend a = False"

fun appendedText :: "action \<Rightarrow> string" where
  "appendedText (HandleNumberInput num) = num"
| "appendedText (HandleOperationInput op) = op"
| "appendedText a = []"

section \<open>Properties\<close>

lemmas handler_defs = resetExpression_def handleNumberInput_def handleOperationInput_def
  clearInput_def backspace_def computeExpression_def

lemmas sample_defs = initialSession_def sampleEvaluator_def expressionParsed_def
  parseExpression_def resultDisplay_def isAsciiLetter_def resumeValue_def resultAt1_def

text \<open>What holds at the start and is kept by every handler holds after every session.\<close>

lemma run_invariant:
  assumes "P s" and "\<And>t a. P t \<Longrightarrow> P (step ev t a)"
  shows "P (run ev s as)"
  using assms(1)
proof (induction as arbitrary: s)
  case Nil
  then show ?case by simp
next
  case (Cons a as)
  from Cons.prems have "P (step ev s a)" by (rule assms(2))
  then have "P (run ev (step ev s a) as)" by (rule Cons.IH)
  then show ?case by simp
qed

lemma afterFour_value:
  "afterFour = \<lparr>expression = [Str ''2'', Str ''+'', Str ''2''], result = [''='', ''4''],
      needsReset = True, resultIsError = False, previousNonErrorResult = Some ''4''\<rparr>"
  by (simp add: afterFour_def keysTwoPlusTwo_def handler_defs sample_defs)

subsection \<open>The error flag\<close>

text \<open>
  A result of one element is an error payload, and it always comes with the flag:
  \<open>computeExpression\<close> sets both in its \<open>catch\<close> branch, and whoever clears the
  flag clears the result.
\<close>

lemma step_error_result_flag:
  assumes "length (result (s::session)) = 1 \<longrightarrow> resultIsError s"
  shows "length (result (step ev s a)) = 1 \<longrightarrow> resultIsError (step ev s a)"
  using assms by (cases a) (auto simp: handler_defs split: sum.splits)

lemma error_result_sets_flag:
  "length (result (run ev initialSession as)) = 1 \<longrightarrow> resultIsError (run ev initialSession as)"
proof (rule run_invariant
    [where P = "\<lambda>t::session. length (result t) = 1 \<longrightarrow> resultIsError t"])
  show "length (result initialSession) = 1 \<longrightarrow> resultIsError initialSession"
    by (simp add: initialSession_def)
next
  fix t :: session and a
  assume "length (result t) = 1 \<longrightarrow> resultIsError t"
  then show "length (result (step ev t a)) = 1 \<longrightarrow> resultIsError (step ev t a)"
    by (rule step_error_result_flag)
qed

text \<open>
  C1. The error flag is true exactly when the result holds an error payload; it is
  false whenever the result is empty, after Backspace, after a digit or operator
  entry and after a successful evaluation. The converse direction fails in
  \<open>backspace\<close>, which empties the result and leaves \<open>resultIsError\<close> alone, where
  \<open>resetExpression\<close> and \<open>clearInput\<close> clear it. After the keys \<open>2 + =\<close> (an
  error) and Backspace the flag is set over an empty result; a digit appended then
  keeps it set; and after \<open>+ 2 =\<close> the successful result \<open>=4\<close> is shown with the
  flag still set.
\<close>

theorem backspace_keeps_error_flag:
  "resultIsError (run sampleEvaluator initialSession (keysTwoPlus @ [ComputeExpression, Backspace]))
   \<and> result (run sampleEvaluator initialSession (keysTwoPlus @ [ComputeExpression, Backspace])) = []
   \<and> resultIsError (run sampleEvaluator initialSession
        (keysTwoPlus @ [ComputeExpression, Backspace, HandleNumberInput ''3'']))
   \<and> resultIsError (run sampleEvaluator initialSession
        (keysTwoPlus @ [ComputeExpression, Backspace, HandleOperationInput ''+'',
                        HandleNumberInput ''2'', ComputeExpression]))
   \<and> result (run sampleEvaluator initialSession
        (keysTwoPlus @ [ComputeExpression, Backspace, HandleOperationInput ''+'',
                        HandleNumberInput ''2'', ComputeExpression])) = [''='', ''4'']"
  by (simp add: keysTwoPlus_def handler_defs sample_defs)

subsection \<open>A failed evaluation\<close>

text \<open>
  C2. When the evaluator raises on the assembled string, \<open>computeExpression\<close>
  stores the one string \<open>Error: \<close> followed by the evaluator's message as the
  result (so the result is not empty), sets \<open>resultIsError\<close> and \<open>needsReset\<close>,
  and leaves \<open>expression\<close> as it was.
\<close>

theorem evaluate_failure:
  assumes "ev (expressionParsed (expression s)) = Inl message"
  shows "result (computeExpression ev s) = [''Error: '' @ message]
       \<and> result (computeExpression ev s) \<noteq> []
       \<and> resultIsError (computeExpression ev s)
       \<and> needsReset (computeExpression ev s)
       \<and> expression (computeExpression ev s) = expression s"
  using assms by (simp add: computeExpression_def)

theorem evaluate_failure_witness:
  "sampleEvaluator (expressionParsed (expression (run sampleEvaluator initialSession keysTwoPlus))) =
     Inl ''Unexpected end of expression (char 3)''
   \<and> result (computeExpression sampleEvaluator (run sampleEvaluator initialSession keysTwoPlus)) =
     [''Error: Unexpected end of expression (char 3)'']
   \<and> resultIsError (computeExpression sampleEvaluator (run sampleEvaluator initialSession keysTwoPlus))
   \<and> needsReset (computeExpression sampleEvaluator (run sampleEvaluator initialSession keysTwoPlus))
   \<and> expression (computeExpression sampleEvaluator (run sampleEvaluator initialSession keysTwoPlus)) =
     [Str ''2'', Str ''+'']"
proof -
  have e: "expression (run sampleEvaluator initialSession keysTwoPlus) = [Str ''2'', Str ''+'']"
    by (simp add: keysTwoPlus_def handler_defs sample_defs)
  have h: "sampleEvaluator (expressionParsed (expression (run sampleEvaluator initialSession keysTwoPlus))) =
     Inl ''Unexpected end of expression (char 3)''"
    unfolding e by (simp add: sample_defs)
  from evaluate_failure [of sampleEvaluator "run sampleEvaluator initialSession keysTwoPlus"
      "''Unexpected end of expression (char 3)''"] h e
  show ?thesis by simp
qed

subsection \<open>Resuming from a result\<close>

text \<open>
  While no evaluation has succeeded, the result has at most one element, so the
  fallback \<open>result[1]\<close> of \<open>handleOperationInput\<close> is \<open>undefined\<close> in every
  session that reaches it.
\<close>

lemma step_no_second_element:
  assumes "previousNonErrorResult (s::session) = None \<longrightarrow> length (result s) \<le> 1"
  shows "previousNonErrorResult (step ev s a) = None \<longrightarrow> length (result (step ev s a)) \<le> 1"
  using assms by (cases a) (auto simp: handler_defs split: sum.splits)

lemma fallback_always_undefined:
  assumes "previousNonErrorResult (run ev initialSession as) = None"
  shows "resultAt1 (result (run ev initialSession as)) = Undefined"
proof -
  have "previousNonErrorResult (run ev initialSession as) = None \<longrightarrow>
        length (result (run ev initialSession as)) \<le> 1"
  proof (rule run_invariant
      [where P = "\<lambda>t::session. previousNonErrorResult t = None \<longrightarrow> length (result t) \<le> 1"])
    show "previousNonErrorResult initialSession = None \<longrightarrow> length (result initialSession) \<le> 1"
      by (simp add: initialSession_def)
  next
    fix t :: session and a
    assume "previousNonErrorResult t = None \<longrightarrow> length (result t) \<le> 1"
    then show "previousNonErrorResult (step ev t a) = None \<longrightarrow> length (result (step ev t a)) \<le> 1"
      by (rule step_no_second_element)
  qed
  with assms show ?thesis by (simp add: resultAt1_def)
qed

text \<open>
  C3. In Result mode an operator \<open>op\<close> gives the tokens \<open>[resumeValue, op]\<close> with
  \<open>resumeValue\<close> a defined string, the second element of the result being present
  when no good result is stored. The handler misses that: after the keys
  \<open>2 + =\<close> the session is in Result mode with no good result stored and a result of
  the single string \<open>Error: Unexpected end of expression (char 3)\<close>; the read at
  index 1 falls off its end, and the operator \<open>+\<close> gives the tokens
  \<open>[undefined, +]\<close>.
\<close>

theorem operator_after_first_error_resumes_undefined:
  "needsReset (run sampleEvaluator initialSession (keysTwoPlus @ [ComputeExpression]))
   \<and> previousNonErrorResult
        (run sampleEvaluator initialSession (keysTwoPlus @ [ComputeExpression])) = None
   \<and> result (run sampleEvaluator initialSession (keysTwoPlus @ [ComputeExpression])) =
        [''Error: Unexpected end of expression (char 3)'']
   \<and> resumeValue (run sampleEvaluator initialSession (keysTwoPlus @ [ComputeExpression])) =
        Undefined
   \<and> expression (run sampleEvaluator initialSession
        (keysTwoPlus @ [ComputeExpression, HandleOperationInput ''+''])) = [Undefined, Str ''+'']"
  by (simp add: keysTwoPlus_def handler_defs sample_defs)

text \<open>
  C4. \<open>previousNonErrorResult\<close> is written by a successful evaluation only, which
  stores the evaluator's string as it is (the displayed one may be wrapped); every
  other handler, and a failed evaluation, leave it as it was.
\<close>

theorem previousNonErrorResult_frame:
  "(a \<noteq> ComputeExpression \<longrightarrow>
      previousNonErrorResult (step ev s a) = previousNonErrorResult s)
   \<and> (ev (expressionParsed (expression s)) = Inl message \<longrightarrow>
      previousNonErrorResult (step ev s ComputeExpression) = previousNonErrorResult s)
   \<and> (ev (expressionParsed (expression s)) = Inr r \<longrightarrow>
      previousNonErrorResult (step ev s ComputeExpression) = Some r
      \<and> result (step ev s ComputeExpression) = [''='', resultDisplay r])"
  by (cases a) (simp_all add: handler_defs)

theorem previousNonErrorResult_frame_witness:
  "previousNonErrorResult (step sampleEvaluator afterFour ClearInput) = Some ''4''
   \<and> previousNonErrorResult (step sampleEvaluator afterFour Backspace) = Some ''4''
   \<and> previousNonErrorResult (step sampleEvaluator afterFour (HandleNumberInput ''7'')) = Some ''4''
   \<and> previousNonErrorResult (step sampleEvaluator afterFour (HandleOperationInput ''+'')) = Some ''4''
   \<and> sampleEvaluator (expressionParsed (expression (step sampleEvaluator afterFour Backspace))) =
       Inl ''Unexpected end of expression (char 3)''
   \<and> previousNonErrorResult
       (step sampleEvaluator (step sampleEvaluator afterFour Backspace) ComputeExpression) = Some ''4''
   \<and> sampleEvaluator (expressionParsed (expression (run sampleEvaluator initialSession keysTwoPlusTwo))) =
       Inr ''4''
   \<and> previousNonErrorResult (run sampleEvaluator initialSession keysTwoPlusTwo) = None
   \<and> previousNonErrorResult
       (step sampleEvaluator (run sampleEvaluator initialSession keysTwoPlusTwo) ComputeExpression) =
       Some ''4''"
  using previousNonErrorResult_frame [of ClearInput sampleEvaluator afterFour]
       previousNonErrorResult_frame [of Backspace sampleEvaluator afterFour]
       previousNonErrorResult_frame [of "HandleNumberInput ''7''" sampleEvaluator afterFour]
       previousNonErrorResult_frame [of "HandleOperationInput ''+''" sampleEvaluator afterFour]
       previousNonErrorResult_frame [of Backspace sampleEvaluator
         "step sampleEvaluator afterFour Backspace" "''Unexpected end of expression (char 3)''"]
       previousNonErrorResult_frame [of Backspace sampleEvaluator
         "run sampleEvaluator initialSession keysTwoPlusTwo" _ "''4''"]
  by (simp add: afterFour_value keysTwoPlusTwo_def handler_defs sample_defs)

text \<open>
  C5. An operator right after a successful evaluation resumes from the stored
  result: with an evaluator that computes \<open>4\<close> for \<open>2+2\<close>, the keys \<open>2 + 2 =\<close>
  from the initial session give the result \<open>= 4\<close>, and a following \<open>+\<close> gives
  the tokens \<open>[4, +]\<close>, an empty result and \<open>needsReset\<close> false.
\<close>

theorem operator_after_success_resumes:
  "(ev (expressionParsed (expression s)) = Inr r \<longrightarrow>
      expression (handleOperationInput op (computeExpression ev s)) = [Str r, Str op])
   \<and> (ev ''2+2'' = Inr ''4'' \<longrightarrow>
      result (run ev initialSession (keysTwoPlusTwo @ [ComputeExpression])) = [''='', ''4'']
      \<and> previousNonErrorResult (run ev initialSession (keysTwoPlusTwo @ [ComputeExpression])) =
          Some ''4''
      \<and> expression (run ev initialSession
            (keysTwoPlusTwo @ [ComputeExpression, HandleOperationInput ''+''])) =
          [Str ''4'', Str ''+'']
      \<and> result (run ev initialSession
            (keysTwoPlusTwo @ [ComputeExpression, HandleOperationInput ''+''])) = []
      \<and> \<not> needsReset (run ev initialSession
            (keysTwoPlusTwo @ [ComputeExpression, HandleOperationInput ''+''])))"
  by (simp add: keysTwoPlusTwo_def handler_defs initialSession_def expressionParsed_def
      parseExpression_def resultDisplay_def isAsciiLetter_def resumeValue_def)

theorem operator_after_success_resumes_witness:
  "sampleEvaluator ''2+2'' = Inr ''4''
   \<and> sampleEvaluator (expressionParsed (expression (run sampleEvaluator initialSession keysTwoPlusTwo))) =
       Inr ''4''
   \<and> expression (handleOperationInput ''+''
        (computeExpression sampleEvaluator (run sampleEvaluator initialSession keysTwoPlusTwo))) =
       [Str ''4'', Str ''+'']
   \<and> result (run sampleEvaluator initialSession (keysTwoPlusTwo @ [ComputeExpression])) = [''='', ''4'']
   \<and> expression (run sampleEvaluator initialSession
         (keysTwoPlusTwo @ [ComputeExpression, HandleOperationInput ''+''])) = [Str ''4'', Str ''+'']
   \<and> result (run sampleEvaluator initialSession
         (keysTwoPlusTwo @ [ComputeExpression, HandleOperationInput ''+''])) = []
   \<and> \<not> needsReset (run sampleEvaluator initialSession
         (keysTwoPlusTwo @ [ComputeExpression, HandleOperationInput ''+'']))"
proof -
  have h0: "sampleEvaluator ''2+2'' = Inr ''4''"
    by (simp add: sampleEvaluator_def)
  have k: "expression (run sampleEvaluator initialSession keysTwoPlusTwo) =
      [Str ''2'', Str ''+'', Str ''2'']"
    by (simp add: keysTwoPlusTwo_def handler_defs sample_defs)
  have h1: "sampleEvaluator (expressionParsed (expression (run sampleEvaluator initialSession keysTwoPlusTwo))) =
       Inr ''4''"
    unfolding k by (simp add: sample_defs)
  from operator_after_success_resumes [of sampleEvaluator
         "run sampleEvaluator initialSession keysTwoPlusTwo" "''4''" "''+''"] h0 h1
  show ?thesis by simp
qed

subsection \<open>Result mode\<close>

lemma step_needsReset: "needsReset (step ev s a) = (result (step ev s a) \<noteq> [])"
  by (cases a) (simp_all add: handler_defs split: sum.splits)

text \<open>
  C6. After every session \<open>needsReset\<close> is true exactly when the result is not
  empty: an evaluation, failed or not, sets \<open>needsReset\<close> with a non-empty result,
  and a digit, an operator, Backspace and Clear each unset it with an empty result.
\<close>

theorem needsReset_iff_result:
  "needsReset (run ev initialSession as) = (result (run ev initialSession as) \<noteq> [])
   \<and> needsReset (step ev s ComputeExpression) \<and> result (step ev s ComputeExpression) \<noteq> []
   \<and> \<not> needsReset (step ev s (HandleNumberInput num)) \<and> result (step ev s (HandleNumberInput num)) = []
   \<and> \<not> needsReset (step ev s (HandleOperationInput op)) \<and> result (step ev s (HandleOperationInput op)) = []
   \<and> \<not> needsReset (step ev s Backspace) \<and> result (step ev s Backspace) = []
   \<and> \<not> needsReset (step ev s ClearInput) \<and> result (step ev s ClearInput) = []"
proof -
  have "needsReset (run ev initialSession as) = (result (run ev initialSession as) \<noteq> [])"
  proof (rule run_invariant [where P = "\<lambda>t::session. needsReset t = (result t \<noteq> [])"])
    show "needsReset initialSession = (result initialSession \<noteq> [])"
      by (simp add: initialSession_def)
  next
    fix t :: session and a
    show "needsReset (step ev t a) = (result (step ev t a) \<noteq> [])"
      by (rule step_needsReset)
  qed
  moreover have "needsReset (step ev s ComputeExpression) \<and> result (step ev s ComputeExpression) \<noteq> []"
    by (simp add: computeExpression_def split: sum.splits)
  ultimately show ?thesis
    by (simp add: handler_defs)
qed

subsection \<open>The string handed to the evaluator\<close>

lemma replaceAll_one: "replaceAll c [d] xs = map (\<lambda>x. if x = c then d else x) xs"
  by (induction xs) simp_all

lemma expressionParsed_map: "expressionParsed e = map glyphToOperator (concat (map tokenText e))"
  by (simp add: expressionParsed_def parseExpression_def replaceAll_one glyphToOperator_def)

lemma map_tokenText_Str: "map tokenText (map Str ts) = ts"
  by (induction ts) simp_all

text \<open>
  C7. The string \<open>computeExpression\<close> evaluates is the tokens joined with no
  separator (an \<open>undefined\<close> token joins as nothing), with each multiplication sign
  replaced by \<open>*\<close>, each division sign by \<open>/\<close> and nothing else changed. The
  evaluator is applied to exactly this string: the stored result is its outcome
  there, and two evaluators that agree on this string give the same next state.
\<close>

theorem evaluator_input_is_translated_join:
  "expressionParsed e = map glyphToOperator (concat (map tokenText e))
   \<and> expressionParsed (map Str ts) = map glyphToOperator (concat ts)
   \<and> result (computeExpression ev s) =
       (case ev (map glyphToOperator (concat (map tokenText (expression s)))) of
          Inl message \<Rightarrow> [''Error: '' @ message]
        | Inr r \<Rightarrow> [''='', resultDisplay r])
   \<and> (ev (map glyphToOperator (concat (map tokenText (expression s)))) =
        ev' (map glyphToOperator (concat (map tokenText (expression s)))) \<longrightarrow>
      computeExpression ev s = computeExpression ev' s)"
proof -
  have "expressionParsed (map Str ts) = map glyphToOperator (concat ts)"
    by (simp only: expressionParsed_map map_tokenText_Str)
  moreover have "result (computeExpression ev s) =
       (case ev (map glyphToOperator (concat (map tokenText (expression s)))) of
          Inl message \<Rightarrow> [''Error: '' @ message]
        | Inr r \<Rightarrow> [''='', resultDisplay r])"
    by (simp add: computeExpression_def expressionParsed_map split: sum.splits)
  moreover have "ev (map glyphToOperator (concat (map tokenText (expression s)))) =
        ev' (map glyphToOperator (concat (map tokenText (expression s)))) \<longrightarrow>
      computeExpression ev s = computeExpression ev' s"
    by (simp add: computeExpression_def expressionParsed_map)
  ultimately show ?thesis
    by (simp add: expressionParsed_map)
qed

theorem evaluator_input_is_translated_join_witness:
  "expressionParsed [Str ''1.5'', Str timesGlyph, Str ''('', Str ''2'', Str ''+'', Str ''3'', Str '')'',
        Str divideGlyph, Str ''4''] = ''1.5*(2+3)/4''
   \<and> sampleEvaluator (map glyphToOperator (concat (map tokenText
        (expression (run sampleEvaluator initialSession keysTwoPlus))))) =
      (\<lambda>x. Inl ''Unexpected end of expression (char 3)'') (map glyphToOperator (concat (map tokenText
        (expression (run sampleEvaluator initialSession keysTwoPlus)))))
   \<and> computeExpression sampleEvaluator (run sampleEvaluator initialSession keysTwoPlus) =
      computeExpression (\<lambda>x. Inl ''Unexpected end of expression (char 3)'')
        (run sampleEvaluator initialSession keysTwoPlus)"
  using evaluator_input_is_translated_join
      [of "[Str ''1.5'', Str timesGlyph, Str ''('', Str ''2'', Str ''+'', Str ''3'', Str '')'',
            Str divideGlyph, Str ''4'']" _ sampleEvaluator
          "run sampleEvaluator initialSession keysTwoPlus"
          "\<lambda>x. Inl ''Unexpected end of expression (char 3)''"]
  by (simp add: keysTwoPlus_def handler_defs sample_defs glyphToOperator_def timesGlyph_def
      divideGlyph_def)

subsection \<open>Composing\<close>

lemma appends_extend_expression:
  assumes "\<not> needsReset s" and "list_all isAppend as"
  shows "expression (run ev s as) = expression s @ map (\<lambda>a. Str (appendedText a)) as
       \<and> \<not> needsReset (run ev s as)"
  using assms
proof (induction as arbitrary: s)
  case Nil
  then show ?case by simp
next
  case (Cons a as)
  from Cons.prems have a: "isAppend a" and as: "list_all isAppend as"
    by simp_all
  from a Cons.prems(1)
  have st: "expression (step ev s a) = expression s @ [Str (appendedText a)]
          \<and> \<not> needsReset (step ev s a)"
    by (cases a) (simp_all add: handleNumberInput_def handleOperationInput_def)
  from Cons.IH [of "step ev s a"] st as show ?case
    by simp
qed

text \<open>
  C8. After any sequence of digit and operator appends from the initial session,
  with no evaluation among them, the expression line of the display is the
  appended strings concatenated in the order of entry.
\<close>

theorem appends_display_concatenation:
  assumes "list_all isAppend as"
  shows "displayExpression (run ev initialSession as) = concat (map appendedText as)"
proof -
  have "\<not> needsReset initialSession" and "expression initialSession = []"
    by (simp_all add: initialSession_def)
  with appends_extend_expression [of initialSession as ev] assms
  have "expression (run ev initialSession as) = map (\<lambda>a. Str (appendedText a)) as"
    by simp
  then show ?thesis
    by (simp add: displayExpression_def parseExpression_def comp_def)
qed

theorem appends_display_concatenation_witness:
  "list_all isAppend [HandleNumberInput ''1'', HandleNumberInput ''.'', HandleNumberInput ''5'',
      HandleOperationInput timesGlyph, HandleOperationInput ''('', HandleNumberInput ''2'',
      HandleOperationInput ''+'', HandleNumberInput ''3'', HandleOperationInput '')'']
   \<and> displayExpression (run sampleEvaluator initialSession
     [HandleNumberInput ''1'', HandleNumberInput ''.'', HandleNumberInput ''5'',
      HandleOperationInput timesGlyph, HandleOperationInput ''('', HandleNumberInput ''2'',
      HandleOperationInput ''+'', HandleNumberInput ''3'', HandleOperationInput '')'']) =
     ''1.5'' @ timesGlyph @ ''(2+3)''"
  using appends_display_concatenation [of
     "[HandleNumberInput ''1'', HandleNumberInput ''.'', HandleNumberInput ''5'',
      HandleOperationInput timesGlyph, HandleOperationInput ''('', HandleNumberInput ''2'',
      HandleOperationInput ''+'', HandleNumberInput ''3'', HandleOperationInput '')'']"
     sampleEvaluator]
  by simp

subsection \<open>The shapes of the result\<close>

lemma step_result_shape:
  "result (step ev s a) = []
   \<or> (\<exists>r. ev (expressionParsed (expression (step ev s a))) = Inr r
          \<and> result (step ev s a) = [''='', resultDisplay r])
   \<or> (\<exists>message. ev (expressionParsed (expression (step ev s a))) = Inl message
          \<and> result (step ev s a) = [''Error: '' @ message])"
  by (cases a) (auto simp: handler_defs split: sum.splits)

text \<open>
  C9, as the specification has it: the result is empty, or the two elements \<open>=\<close>
  and the displayed result, or the two elements \<open>Error: \<close> and the message. After
  the keys \<open>2 + =\<close> the result is neither empty nor of two elements.
\<close>

theorem error_result_is_one_string_counterexample:
  "\<not> (result (run sampleEvaluator initialSession (keysTwoPlus @ [ComputeExpression])) = []
      \<or> (length (result (run sampleEvaluator initialSession (keysTwoPlus @ [ComputeExpression]))) = 2
          \<and> result (run sampleEvaluator initialSession (keysTwoPlus @ [ComputeExpression])) ! 0 = ''='')
      \<or> (length (result (run sampleEvaluator initialSession (keysTwoPlus @ [ComputeExpression]))) = 2
          \<and> result (run sampleEvaluator initialSession (keysTwoPlus @ [ComputeExpression])) ! 0 =
              ''Error: ''))"
  by (simp add: keysTwoPlus_def handler_defs sample_defs)

text \<open>
  C9, amended. After every session the result has one of three shapes: it is
  empty; or it is the two elements \<open>=\<close> and the displayed form of the string the
  evaluator returns for the current expression; or it is one element, the string
  \<open>Error: \<close> followed by the message the evaluator raises for the current
  expression.
\<close>

theorem result_shapes:
  "result (run ev initialSession as) = []
   \<or> (\<exists>r. ev (expressionParsed (expression (run ev initialSession as))) = Inr r
          \<and> result (run ev initialSession as) = [''='', resultDisplay r])
   \<or> (\<exists>message. ev (expressionParsed (expression (run ev initialSession as))) = Inl message
          \<and> result (run ev initialSession as) = [''Error: '' @ message])"
proof (rule run_invariant [where P = "\<lambda>t::session. result t = []
   \<or> (\<exists>r. ev (expressionParsed (expression t)) = Inr r \<and> result t = [''='', resultDisplay r])
   \<or> (\<exists>message. ev (expressionParsed (expression t)) = Inl message
          \<and> result t = [''Error: '' @ message])"])
  show "result initialSession = []
   \<or> (\<exists>r. ev (expressionParsed (expression initialSession)) = Inr r
          \<and> result initialSession = [''='', resultDisplay r])
   \<or> (\<exists>message. ev (expressionParsed (expression initialSession)) = Inl message
          \<and> result initialSession = [''Error: '' @ message])"
    by (simp add: initialSession_def)
next
  fix t :: session and a
  show "result (step ev t a) = []
   \<or> (\<exists>r. ev (expressionParsed (expression (step ev t a))) = Inr r
          \<and> result (step ev t a) = [''='', resultDisplay r])
   \<or> (\<exists>message. ev (expressionParsed (expression (step ev t a))) = Inl message
          \<and> result (step ev t a) = [''Error: '' @ message])"
    by (rule step_result_shape)
qed

subsection \<open>Parentheses on the keypad and on the keyboard\<close>

text \<open>
  C10. The keypad buttons \<open>(\<close> and \<open>)\<close> call \<open>handleOperationInput\<close> (no keypad
  button calls \<open>handleNumberInput\<close> with a parenthesis), while the keys \<open>(\<close> and
  \<open>)\<close> with shift held call \<open>handleNumberInput\<close>. So in Result mode a click on
  \<open>(\<close> gives the tokens \<open>[resumeValue, (]\<close> and typing \<open>(\<close> gives \<open>[(]\<close> alone.
\<close>

theorem parenthesis_classification:
  "InputButton ''('' OperationHandler \<in> set keypad
   \<and> InputButton '')'' OperationHandler \<in> set keypad
   \<and> InputButton ''('' NumberHandler \<notin> set keypad
   \<and> InputButton '')'' NumberHandler \<notin> set keypad
   \<and> onClick (InputButton ''('' OperationHandler) = HandleOperationInput ''(''
   \<and> onClick (InputButton '')'' OperationHandler) = HandleOperationInput '')''
   \<and> keyDownHandler True ''('' = Some (HandleNumberInput ''('')
   \<and> keyDownHandler True '')'' = Some (HandleNumberInput '')'')
   \<and> (needsReset s \<longrightarrow>
        expression (step ev s (HandleOperationInput ''('')) = [resumeValue s, Str ''('']
        \<and> expression (step ev s (HandleNumberInput ''('')) = [Str ''(''])"
  by (simp add: keypad_def keyDownHandler_def handler_defs timesGlyph_def divideGlyph_def)

theorem parenthesis_classification_witness:
  "needsReset afterFour
   \<and> expression (step sampleEvaluator afterFour (HandleOperationInput ''('')) =
       [Str ''4'', Str ''('']
   \<and> expression (step sampleEvaluator afterFour (HandleNumberInput ''('')) = [Str ''('']"
  using parenthesis_classification [of afterFour sampleEvaluator]
  by (simp add: afterFour_value resumeValue_def)

end
